theory Spec2Isabelle
  imports Complex_Main
begin

section \<open>The breast-cancer diagnosis API (src/api/app.py)\<close>

text \<open>
  The serving layer is one Flask module: three module globals filled once by
  \<open>load_model_artifacts\<close>, a pydantic class \<open>PredictionInput\<close> and two
  view functions, \<open>health_check\<close> and \<open>predict\<close>. Every raise of the source is a
  value \<open>Inl e\<close> of a sum type, every \<open>except\<close> clause a case on that value. Calls
  to the logger only write a line and are left out, except for the one argument whose
  evaluation can raise. A response is the pair the view returns: the dict given to
  \<open>jsonify\<close> and the status code.
\<close>

subsection \<open>Python values\<close>

text \<open>
  A Python float is a finite value or one of the three special values that
  \<open>np.isnan\<close> and \<open>np.isinf\<close> recognise. Finite values are exact rationals: the
  rounding error of float arithmetic is outside the model. The conversion of an int to
  a float, which rounds and can overflow, is \<open>int_to_float\<close> below.
\<close>

datatype pyfloat = Fin rat | PosInf | NegInf | NaN

fun isnan :: "pyfloat \<Rightarrow> bool" where
  "isnan NaN = True"
| "isnan _ = False"

fun isinf :: "pyfloat \<Rightarrow> bool" where
  "isinf PosInf = True"
| "isinf NegInf = True"
| "isinf _ = False"

text \<open>What \<open>request.get_json()\<close> and \<open>json.load\<close> return; \<open>JNull\<close> is \<open>None\<close>.
  A \<open>JObj\<close> lists the items of the parsed dict.\<close>

datatype json =
    JNull
  | JBool bool
  | JInt int
  | JFloat pyfloat
  | JStr string
  | JArr "json list"
  | JObj "(string \<times> json) list"

text \<open>Python truth value, as \<open>not json_data\<close> reads it.\<close>

fun truthy :: "json \<Rightarrow> bool" where
  "truthy JNull = False"
| "truthy (JBool b) = b"
| "truthy (JInt i) = (i \<noteq> 0)"
| "truthy (JFloat x) = (x \<noteq> Fin 0)"
| "truthy (JStr s) = (s \<noteq> [])"
| "truthy (JArr js) = (js \<noteq> [])"
| "truthy (JObj kvs) = (kvs \<noteq> [])"

text \<open>One entry of pydantic's \<open>e.errors()\<close>: the location of the offending input
  (\<open>loc\<close>) and the kind of failure (\<open>type\<close>). The keys \<open>msg\<close>, \<open>input\<close> and
  \<open>url\<close> of an entry repeat the kind and the input and are not modelled.\<close>

datatype loc_item = LocKey string | LocIndex nat

datatype error_kind = missing | list_type | float_type | float_parsing

type_synonym error_detail = "loc_item list \<times> error_kind"

text \<open>The exception classes the handlers tell apart. \<open>ValidationError\<close> is listed
  before \<open>ValueError\<close> as in the \<open>except\<close> chain; \<open>HTTPException\<close> is what the
  framework's \<open>get_json\<close> raises; \<open>OtherError\<close> is any remaining subclass of
  \<open>Exception\<close>.\<close>

datatype exc =
    FileNotFoundError
  | ValidationError "error_detail list"
  | ValueError string
  | TypeError
  | IndexError
  | AttributeError
  | HTTPException nat
  | OtherError

definition bind :: "exc + 'a \<Rightarrow> ('a \<Rightarrow> exc + 'b) \<Rightarrow> exc + 'b" where
  "bind r f = (case r of Inl e \<Rightarrow> Inl e | Inr x \<Rightarrow> f x)"

text \<open>\<open>a[i]\<close> for a constant index \<open>i \<ge> 0\<close>: out of range raises.\<close>

definition getitem :: "'a list \<Rightarrow> nat \<Rightarrow> exc + 'a" where
  "getitem xs i = (if i < length xs then Inr (xs ! i) else Inl IndexError)"

text \<open>\<open>str(n)\<close> for an int, as an f-string formats it.\<close>

function str_nat :: "nat \<Rightarrow> string" where
  "str_nat n = (if n < 10 then [''0123456789'' ! n]
                else str_nat (n div 10) @ [''0123456789'' ! (n mod 10)])"
  by pat_completeness auto
termination
  by (relation "measure (\<lambda>n. n)") auto

declare str_nat.simps [simp del]

definition str_int :: "int \<Rightarrow> string" where
  "str_int i = (if i < 0 then CHR ''-'' # str_nat (nat (- i)) else str_nat (nat i))"

text \<open>\<open>round(x, 4)\<close>: the nearest multiple of \<open>10\<^sup>-\<^sup>4\<close>, a tie going to the even
  neighbour; NaN and the infinities are returned unchanged.\<close>

definition round_half_even :: "rat \<Rightarrow> int" where
  "round_half_even q =
     (let f = \<lfloor>q\<rfloor>; d = q - of_int f
      in if d < 1 / 2 then f
         else if 1 / 2 < d then f + 1
         else if even f then f else f + 1)"

fun round4 :: "pyfloat \<Rightarrow> pyfloat" where
  "round4 (Fin q) = Fin (of_int (round_half_even (q * 10000)) / 10000)"
| "round4 x = x"

text \<open>
  \<open>float(i)\<close> for an int, as the schema's float type converts a JSON integer: exact
  below \<open>2\<^sup>5\<^sup>3\<close>, otherwise rounded to 53 significant bits with a tie going to
  the even neighbour, and \<open>OverflowError\<close> (\<open>None\<close>) when the rounded value reaches
  \<open>2\<^sup>1\<^sup>0\<^sup>2\<^sup>4\<close>.
\<close>

function bit_length :: "int \<Rightarrow> nat" where
  "bit_length n = (if n \<le> 0 then 0 else Suc (bit_length (n div 2)))"
  by pat_completeness auto
termination
  by (relation "measure nat") auto

declare bit_length.simps [simp del]

definition int_to_float :: "int \<Rightarrow> pyfloat option" where
  "int_to_float i =
     (if \<bar>i\<bar> < 2 ^ 53 then Some (Fin (of_int i))
      else
        (let shift = bit_length \<bar>i\<bar> - 53;
             r = round_half_even (of_int \<bar>i\<bar> / 2 ^ shift) * 2 ^ shift
         in if 2 ^ 1024 \<le> r then None else Some (Fin (of_int (sgn i * r)))))"

text \<open>
  Two behaviours of the libraries that the repository does not contain are parameters
  of the model: how the schema's float type reads a string (\<open>None\<close>: not a number),
  and how \<open>str\<close> prints a float, a list or a dict.
\<close>

record library =
  parse_float :: "string \<Rightarrow> pyfloat option"
  format_other :: "json \<Rightarrow> string"

text \<open>\<open>str(v)\<close>, as an f-string formats a value read from JSON.\<close>

fun py_str :: "library \<Rightarrow> json \<Rightarrow> string" where
  "py_str lib (JInt i) = str_int i"
| "py_str lib JNull = ''None''"
| "py_str lib (JBool b) = (if b then ''True'' else ''False'')"
| "py_str lib (JStr s) = s"
| "py_str lib j = format_other lib j"

text \<open>\<open>n == v\<close> for an int \<open>n\<close> and a value read from JSON: numbers compare by value,
  \<open>True\<close> is 1 and \<open>False\<close> is 0, and nothing else equals an int.\<close>

fun int_equals :: "int \<Rightarrow> json \<Rightarrow> bool" where
  "int_equals n (JInt i) = (n = i)"
| "int_equals n (JBool b) = (n = (if b then 1 else 0))"
| "int_equals n (JFloat (Fin q)) = (of_int n = q)"
| "int_equals n _ = False"

text \<open>\<open>d.get(key, default)\<close>: only a dict has the method.\<close>

fun dict_get :: "json \<Rightarrow> string \<Rightarrow> json \<Rightarrow> exc + json" where
  "dict_get (JObj kvs) k dflt =
     Inr (case map_of kvs k of None \<Rightarrow> dflt | Some v \<Rightarrow> v)"
| "dict_get _ k dflt = Inl AttributeError"

subsection \<open>Artifacts and module globals\<close>

text \<open>
  The classifier and the scaler are objects of an external library, read from disk by
  \<open>joblib.load\<close>; the service only calls \<open>transform\<close>, \<open>predict\<close> and
  \<open>predict_proba\<close> on them, and each call returns an array or raises. A one-row
  matrix is its row; \<open>predict\<close> returns one label per row and \<open>predict_proba\<close>
  one row of class probabilities per row.
\<close>

record scaler_obj =
  transform :: "pyfloat list \<Rightarrow> exc + pyfloat list"

record classifier_obj =
  model_predict :: "pyfloat list \<Rightarrow> exc + int list"
  model_predict_proba :: "pyfloat list \<Rightarrow> exc + pyfloat list list"

text \<open>A file on disk: not there, there but not deserialisable, or holding a value.
  The metadata file holds whatever JSON value was written to it.\<close>

datatype 'a artifact_file = Absent | Unreadable | Content 'a

record files =
  MODEL_PATH :: "classifier_obj artifact_file"
  SCALER_PATH :: "scaler_obj artifact_file"
  METADATA_PATH :: "json artifact_file"

text \<open>The module globals; \<open>model_metadata\<close> starts as the empty dict.\<close>

record state =
  model :: "classifier_obj option"
  scaler :: "scaler_obj option"
  model_metadata :: json
  model_loaded :: bool

definition initial_state :: state where
  "initial_state =
     \<lparr>model = None, scaler = None, model_metadata = JObj [], model_loaded = False\<rparr>"

fun joblib_load :: "'a artifact_file \<Rightarrow> exc + 'a" where
  "joblib_load Absent = Inl FileNotFoundError"
| "joblib_load Unreadable = Inl OtherError"
| "joblib_load (Content a) = Inr a"

fun path_exists :: "'a artifact_file \<Rightarrow> bool" where
  "path_exists Absent = False"
| "path_exists _ = True"

text \<open>\<open>json.load\<close> raises \<open>JSONDecodeError\<close>, a subclass of \<open>ValueError\<close>, on a file
  that is not JSON.\<close>

fun json_load :: "'a artifact_file \<Rightarrow> exc + 'a" where
  "json_load Absent = Inl FileNotFoundError"
| "json_load Unreadable = Inl (ValueError ''JSONDecodeError'')"
| "json_load (Content a) = Inr a"

subsection \<open>load_model_artifacts\<close>

text \<open>The body of the \<open>try\<close>: each assignment to a global is kept when a later
  statement raises. The last statement before \<open>return True\<close> formats
  \<open>model_metadata.get('accuracy', 'N/A')\<close> for the log, which raises when the
  metadata is not a dict.\<close>

definition load_try :: "files \<Rightarrow> state \<Rightarrow> (exc + bool) \<times> state" where
  "load_try fs g =
     (case joblib_load (MODEL_PATH fs) of
        Inl e \<Rightarrow> (Inl e, g)
      | Inr m \<Rightarrow>
          (let g1 = g\<lparr>model := Some m\<rparr> in
           case joblib_load (SCALER_PATH fs) of
             Inl e \<Rightarrow> (Inl e, g1)
           | Inr s \<Rightarrow>
               (let g2 = g1\<lparr>scaler := Some s\<rparr> in
                case (if path_exists (METADATA_PATH fs) then
                        (case json_load (METADATA_PATH fs) of
                           Inl e \<Rightarrow> (Inl e, g2)
                         | Inr md \<Rightarrow> (Inr (), g2\<lparr>model_metadata := md\<rparr>))
                      else (Inr (), g2)) of
                  (Inl e, g3) \<Rightarrow> (Inl e, g3)
                | (Inr _, g3) \<Rightarrow>
                    (case dict_get (model_metadata g3) ''accuracy'' (JStr ''N/A'') of
                       Inl e \<Rightarrow> (Inl e, g3)
                     | Inr _ \<Rightarrow> (Inr True, g3)))))"

text \<open>The two \<open>except\<close> clauses: \<open>FileNotFoundError\<close>, then every other
  \<open>Exception\<close>. A result \<open>Inl e\<close> would be an exception leaving the function.\<close>

definition load_model_artifacts :: "files \<Rightarrow> state \<Rightarrow> (exc + bool) \<times> state" where
  "load_model_artifacts fs g =
     (case load_try fs g of
        (Inr b, g') \<Rightarrow> (Inr b, g')
      | (Inl FileNotFoundError, g') \<Rightarrow> (Inr False, g')
      | (Inl _, g') \<Rightarrow> (Inr False, g'))"

text \<open>Module initialisation: \<open>model_loaded = load_model_artifacts()\<close>.\<close>

definition startup :: "files \<Rightarrow> exc + state" where
  "startup fs =
     (case load_model_artifacts fs initial_state of
        (Inl e, g) \<Rightarrow> Inl e
      | (Inr b, g) \<Rightarrow> Inr (g\<lparr>model_loaded := b\<rparr>))"

subsection \<open>PredictionInput\<close>

text \<open>
  The schema \<open>features: List[float]\<close> is checked by pydantic when the object is built.
  Its float type takes a JSON float as it is (NaN and the infinities included), a JSON
  integer when \<open>float\<close> converts it, a bool as 1 or 0, and a string when the library
  reads it as a number; null, lists and objects are rejected.
\<close>

fun float_field :: "library \<Rightarrow> json \<Rightarrow> pyfloat option" where
  "float_field lib (JInt i) = int_to_float i"
| "float_field lib (JFloat x) = Some x"
| "float_field lib (JBool b) = Some (Fin (if b then 1 else 0))"
| "float_field lib (JStr s) = parse_float lib s"
| "float_field lib _ = None"

text \<open>The kind reported for a rejected item: a string that does not parse, or a value
  of a wrong type.\<close>

fun item_error :: "json \<Rightarrow> error_kind" where
  "item_error (JStr s) = float_parsing"
| "item_error _ = float_type"

text \<open>The items of the list from position \<open>i\<close> on: one error per rejected item,
  located at \<open>("features", i)\<close>, and the accepted values.\<close>

fun validate_items ::
  "library \<Rightarrow> nat \<Rightarrow> json list \<Rightarrow> error_detail list \<times> pyfloat list" where
  "validate_items lib i [] = ([], [])"
| "validate_items lib i (j # js) =
     (case validate_items lib (Suc i) js of
        (es, xs) \<Rightarrow>
          (case float_field lib j of
             None \<Rightarrow> (([LocKey ''features'', LocIndex i], item_error j) # es, xs)
           | Some x \<Rightarrow> (es, x # xs)))"

record PredictionInput =
  features :: "pyfloat list"

text \<open>\<open>PredictionInput(**json_data)\<close>: \<open>**\<close> needs a mapping; keys other than
  \<open>features\<close> are ignored.\<close>

fun PredictionInput_init :: "library \<Rightarrow> json \<Rightarrow> exc + PredictionInput" where
  "PredictionInput_init lib (JObj kvs) =
     (case map_of kvs ''features'' of
        None \<Rightarrow> Inl (ValidationError [([LocKey ''features''], missing)])
      | Some (JArr js) \<Rightarrow>
          (case validate_items lib 0 js of
             ([], xs) \<Rightarrow> Inr \<lparr>features = xs\<rparr>
           | (e # es, xs) \<Rightarrow> Inl (ValidationError (e # es)))
      | Some _ \<Rightarrow> Inl (ValidationError [([LocKey ''features''], list_type)]))"
| "PredictionInput_init lib _ = Inl TypeError"

text \<open>A Python string is the list of its code points; the accented letters of the
  messages are code points below 256, written by their number.\<close>

definition valores_invalidos :: string where
  "valores_invalidos = ''Features contienen valores inv'' @ [CHR 0xE1] @ ''lidos''"

text \<open>\<open>model_metadata.get('feature_count', 30)\<close>: whatever value the metadata holds
  under the key, and 30 when the key is absent.\<close>

definition expected_count :: "state \<Rightarrow> exc + json" where
  "expected_count st = dict_get (model_metadata st) ''feature_count'' (JInt 30)"

definition validate_features :: "library \<Rightarrow> state \<Rightarrow> PredictionInput \<Rightarrow> exc + unit" where
  "validate_features lib st self =
     bind (expected_count st) (\<lambda>expected.
       if \<not> int_equals (int (length (features self))) expected then
         Inl (ValueError (''Se esperaban '' @ py_str lib expected
                @ '' features, recibidas '' @ str_int (int (length (features self)))))
       else if list_ex isnan (features self) \<or> list_ex isinf (features self) then
         Inl (ValueError valores_invalidos)
       else Inr ())"

definition to_numpy :: "PredictionInput \<Rightarrow> pyfloat list" where
  "to_numpy self = features self"

subsection \<open>Responses\<close>

text \<open>The dicts the views give to \<open>jsonify\<close>. \<open>confidence_Benigno\<close> and
  \<open>confidence_Maligno\<close> are the two entries of the nested dict \<open>confidence\<close>;
  \<open>status_model_loaded\<close> is the key \<open>model_loaded\<close> of the health body; \<open>ErrorBody\<close>
  is \<open>{"error": msg}\<close> and \<open>InvalidBody\<close> is \<open>{"error": msg, "details": errors}\<close>.\<close>

record prediction_result =
  prediction :: string
  confidence_Benigno :: pyfloat
  confidence_Maligno :: pyfloat
  prediction_numeric :: int

record health_status =
  status :: string
  message :: string
  status_model_loaded :: bool
  model_accuracy :: json

datatype body =
    ErrorBody string
  | InvalidBody string "error_detail list"
  | ResultBody prediction_result
  | HealthBody health_status

record response =
  body :: body
  status_code :: nat

definition api_message :: string where
  "api_message = ''API de diagn'' @ [CHR 0xF3] @ ''stico de c'' @ [CHR 0xE1] @ ''ncer de mama''"

definition datos_invalidos :: string where
  "datos_invalidos = ''Datos inv'' @ [CHR 0xE1] @ ''lidos''"

subsection \<open>GET /\<close>

text \<open>The view builds the status dict outside any \<open>try\<close>: when
  \<open>model_metadata.get\<close> raises, the exception leaves the view (\<open>Inl\<close>) and the
  framework answers 500.\<close>

definition health_check :: "state \<Rightarrow> exc + response" where
  "health_check st =
     bind (dict_get (model_metadata st) ''accuracy'' (JStr ''N/A'')) (\<lambda>acc.
       Inr \<lparr>body = HealthBody
              \<lparr>status = (if model_loaded st then ''ok'' else ''degraded''),
               message = api_message,
               status_model_loaded = model_loaded st,
               model_accuracy = acc\<rparr>,
            status_code = (if model_loaded st then 200 else 503)\<rparr>)"

subsection \<open>POST /predict\<close>

text \<open>The body of the \<open>try\<close>, up to the result dict. A global that is still
  \<open>None\<close> has no method to call.\<close>

definition predict_try :: "library \<Rightarrow> state \<Rightarrow> json \<Rightarrow> exc + prediction_result" where
  "predict_try lib st json_data =
     bind (PredictionInput_init lib json_data) (\<lambda>input_data.
     bind (validate_features lib st input_data) (\<lambda>_.
     let data_to_predict = to_numpy input_data in
     bind (case scaler st of None \<Rightarrow> Inl AttributeError
           | Some s \<Rightarrow> transform s data_to_predict) (\<lambda>data_scaled.
     bind (case model st of None \<Rightarrow> Inl AttributeError
           | Some m \<Rightarrow> model_predict m data_scaled) (\<lambda>prediction.
     bind (case model st of None \<Rightarrow> Inl AttributeError
           | Some m \<Rightarrow> model_predict_proba m data_scaled) (\<lambda>prediction_proba.
     bind (getitem prediction 0) (\<lambda>label.
     bind (getitem prediction_proba 0) (\<lambda>row0.
     bind (getitem row0 0) (\<lambda>p_benigno.
     bind (getitem prediction_proba 0) (\<lambda>row1.
     bind (getitem row1 1) (\<lambda>p_maligno.
     Inr \<lparr>prediction = (if label = 1 then ''Maligno'' else ''Benigno''),
          confidence_Benigno = round4 p_benigno,
          confidence_Maligno = round4 p_maligno,
          prediction_numeric = label\<rparr>))))))))))"

text \<open>
  The view. Its argument \<open>req\<close> is what \<open>request.get_json()\<close> does on this request:
  return the parsed body (\<open>Inr\<close>) or raise (\<open>Inl\<close>). The call stands before the
  \<open>try\<close>, so what it raises leaves the view (\<open>Inl\<close> in the result) and is answered
  by the framework, not by this code.
\<close>

definition predict :: "library \<Rightarrow> state \<Rightarrow> exc + json \<Rightarrow> exc + response" where
  "predict lib st req =
     (if \<not> model_loaded st then
        Inr \<lparr>body = ErrorBody ''Modelo no disponible'', status_code = 503\<rparr>
      else
        (case req of
           Inl e \<Rightarrow> Inl e
         | Inr json_data \<Rightarrow>
             if \<not> truthy json_data then
               Inr \<lparr>body = ErrorBody ''No se proporcionaron datos JSON'', status_code = 400\<rparr>
             else
               (case predict_try lib st json_data of
                  Inr result \<Rightarrow> Inr \<lparr>body = ResultBody result, status_code = 200\<rparr>
                | Inl (ValidationError errors) \<Rightarrow>
                    Inr \<lparr>body = InvalidBody datos_invalidos errors, status_code = 422\<rparr>
                | Inl (ValueError msg) \<Rightarrow>
                    Inr \<lparr>body = ErrorBody msg, status_code = 400\<rparr>
                | Inl _ \<Rightarrow>
                    Inr \<lparr>body = ErrorBody ''Error interno del servidor'', status_code = 500\<rparr>)))"

subsection \<open>Predicates of the statements\<close>



text \<open>A file that deserialises, and a JSON value that is an object.\<close>

definition is_content :: "'a artifact_file \<Rightarrow> bool" where
  "is_content f = (case f of Content _ \<Rightarrow> True | _ \<Rightarrow> False)"

definition is_dict :: "json \<Rightarrow> bool" where
  "is_dict j = (case j of JObj _ \<Rightarrow> True | _ \<Rightarrow> False)"

text \<open>A JSON number, as the wording "a list of numbers" reads it.\<close>

definition json_number :: "json \<Rightarrow> bool" where
  "json_number j = (case j of JInt _ \<Rightarrow> True | JFloat _ \<Rightarrow> True | _ \<Rightarrow> False)"

text \<open>The contract of the classifier that src/model/train.py fits on the labels 0 and
  1: every label it answers is 0 or 1.\<close>

definition binary_labels :: "state \<Rightarrow> bool" where
  "binary_labels st =
     (case model st of
        None \<Rightarrow> True
      | Some m \<Rightarrow> \<forall>z ls. model_predict m z = Inr ls \<longrightarrow> list_all (\<lambda>c. c = 0 \<or> c = 1) ls)"

text \<open>The payload has a \<open>features\<close> field that is a list whose every item the float
  type takes.\<close>

definition schema_ok :: "library \<Rightarrow> (string \<times> json) list \<Rightarrow> bool" where
  "schema_ok lib kvs =
     (case map_of kvs ''features'' of
        Some (JArr js) \<Rightarrow> list_all (\<lambda>j. float_field lib j \<noteq> None) js
      | _ \<Rightarrow> False)"

text \<open>The details a schema error is to carry: the missing field, the field that is
  not a list, or every rejected item by its index, in order.\<close>

definition rejected_items :: "library \<Rightarrow> json list \<Rightarrow> error_detail list" where
  "rejected_items lib js =
     map (\<lambda>i. ([LocKey ''features'', LocIndex i], item_error (js ! i)))
       (filter (\<lambda>i. float_field lib (js ! i) = None) [0..<length js])"

definition schema_details :: "library \<Rightarrow> (string \<times> json) list \<Rightarrow> error_detail list" where
  "schema_details lib kvs =
     (case map_of kvs ''features'' of
        None \<Rightarrow> [([LocKey ''features''], missing)]
      | Some (JArr js) \<Rightarrow> rejected_items lib js
      | Some _ \<Rightarrow> [([LocKey ''features''], list_type)])"

subsection \<open>Example artifacts and requests\<close>

text \<open>
  Concrete artifacts for the closed instances below: a library that reads no string as
  a number, a scaler that leaves its input as it is, a binary classifier that answers
  label 1 with probabilities \<open>(0.03125, 0.96875)\<close>, and a metadata dict that expects
  two features.
\<close>

definition example_library :: library where
  "example_library = \<lparr>parse_float = (\<lambda>s. None), format_other = (\<lambda>j. [])\<rparr>"

definition example_scaler :: scaler_obj where
  "example_scaler = \<lparr>transform = (\<lambda>xs. Inr xs)\<rparr>"

definition example_classifier :: classifier_obj where
  "example_classifier =
     \<lparr>model_predict = (\<lambda>z. Inr [1]),
      model_predict_proba = (\<lambda>z. Inr [[Fin (1 / 32), Fin (31 / 32)]])\<rparr>"

definition example_metadata :: json where
  "example_metadata =
     JObj [(''accuracy'', JFloat (Fin (97 / 100))), (''feature_count'', JInt 2)]"

definition no_files :: files where
  "no_files = \<lparr>MODEL_PATH = Absent, SCALER_PATH = Absent, METADATA_PATH = Absent\<rparr>"

definition example_files :: files where
  "example_files =
     \<lparr>MODEL_PATH = Content example_classifier, SCALER_PATH = Content example_scaler,
      METADATA_PATH = Content example_metadata\<rparr>"

definition example_state :: state where
  "example_state =
     \<lparr>model = Some example_classifier, scaler = Some example_scaler,
      model_metadata = example_metadata, model_loaded = True\<rparr>"

definition default_files :: files where
  "default_files =
     \<lparr>MODEL_PATH = Content example_classifier, SCALER_PATH = Content example_scaler,
      METADATA_PATH = Absent\<rparr>"

definition default_state :: state where
  "default_state =
     \<lparr>model = Some example_classifier, scaler = Some example_scaler,
      model_metadata = JObj [], model_loaded = True\<rparr>"

definition corrupt_metadata_files :: files where
  "corrupt_metadata_files =
     \<lparr>MODEL_PATH = Content example_classifier, SCALER_PATH = Content example_scaler,
      METADATA_PATH = Unreadable\<rparr>"

text \<open>A metadata file that holds the JSON list \<open>[1, 2]\<close>, and the globals the load
  leaves behind on it.\<close>

definition list_metadata_files :: files where
  "list_metadata_files =
     \<lparr>MODEL_PATH = Content example_classifier, SCALER_PATH = Content example_scaler,
      METADATA_PATH = Content (JArr [JInt 1, JInt 2])\<rparr>"

definition list_metadata_state :: state where
  "list_metadata_state =
     \<lparr>model = Some example_classifier, scaler = Some example_scaler,
      model_metadata = JArr [JInt 1, JInt 2], model_loaded = False\<rparr>"

definition example_payload :: json where
  "example_payload = JObj [(''features'', JArr [JFloat (Fin (3 / 2)), JInt 2])]"

definition bool_payload :: json where
  "bool_payload = JObj [(''features'', JArr [JBool True, JBool False])]"

definition example_result :: prediction_result where
  "example_result =
     \<lparr>prediction = ''Maligno'', confidence_Benigno = Fin (39 / 1250),
      confidence_Maligno = Fin (1211 / 1250), prediction_numeric = 1\<rparr>"

text \<open>An integer beyond the range of a double, and a payload whose list holds a
  number, a string that is not a number, a null and that integer.\<close>

definition huge_int :: int where
  "huge_int = 2 ^ 1024"

definition rejected_payload :: "(string \<times> json) list" where
  "rejected_payload = [(''features'', JArr [JInt 1, JStr ''x'', JNull, JInt huge_int])]"

section \<open>Properties\<close>

subsection \<open>Rounding and conversion\<close>

lemmas load_defs = startup_def load_model_artifacts_def load_try_def initial_state_def Let_def

lemmas predict_defs = predict_def predict_try_def bind_def validate_features_def
  expected_count_def to_numpy_def getitem_def

lemma round_half_even_lower: "of_int lo \<le> q \<Longrightarrow> lo \<le> round_half_even q"
  unfolding round_half_even_def Let_def
  by (auto; linarith)




lemma round_half_even_examples:
  "round_half_even (625 / 2) = 312" "round_half_even (19375 / 2) = 9688"
  by code_simp+

lemma str_int_examples:
  "str_int 30 = ''30''" "str_int 3 = ''3''" "str_int 2 = ''2''" "str_int 1 = ''1''"
  by (simp_all add: str_int_def str_nat.simps)

text \<open>The bit length brackets a positive integer between two powers of two, so an
  integer of magnitude \<open>2\<^sup>1\<^sup>0\<^sup>2\<^sup>4\<close> or more does not convert.\<close>

lemma bit_length_bounds: "0 < n \<Longrightarrow> 2 ^ (bit_length n - 1) \<le> n \<and> n < 2 ^ bit_length n"
proof (induction n rule: bit_length.induct)
  case (1 n)
  show ?case
  proof (cases "n = 1")
    case True
    then show ?thesis by (simp add: bit_length.simps)
  next
    case False
    with 1 have h: "0 < n div 2" by simp
    from 1 h have ih: "2 ^ (bit_length (n div 2) - 1) \<le> n div 2 \<and> n div 2 < 2 ^ bit_length (n div 2)"
      by simp
    have bl: "bit_length n = Suc (bit_length (n div 2))" using 1 by (simp add: bit_length.simps)
    have pos: "0 < bit_length (n div 2)" using h by (simp add: bit_length.simps)
    from ih have "2 * 2 ^ (bit_length (n div 2) - 1) \<le> n" by linarith
    moreover have "(2::int) * 2 ^ (bit_length (n div 2) - 1) = 2 ^ bit_length (n div 2)"
      using pos by (cases "bit_length (n div 2)") simp_all
    moreover from ih have "n < 2 * 2 ^ bit_length (n div 2)" by linarith
    ultimately show ?thesis by (simp add: bl)
  qed
qed

lemma int_to_float_overflow:
  assumes "2 ^ 1024 \<le> \<bar>i\<bar>"
  shows "int_to_float i = None"
proof -
  define n where "n = \<bar>i\<bar>"
  define b where "b = bit_length n"
  define s where "s = b - 53"
  have big: "(2::int) ^ 1024 \<le> n" using assms by (simp add: n_def)
  then have pos: "0 < n" by (smt (verit) zero_less_power)
  from bit_length_bounds[OF pos] have lo: "2 ^ (b - 1) \<le> n" and hi: "n < 2 ^ b"
    by (simp_all add: b_def)
  from big hi have "(2::int) ^ 1024 < 2 ^ b" by linarith
  then have b: "1024 < b" by (rule power_less_imp_less_exp[rotated]) simp
  then have split: "b - 1 = 52 + s" by (simp add: s_def)
  have eq: "(2::int) ^ 52 * 2 ^ s = 2 ^ (b - 1)" by (simp only: split power_add)
  have "rat_of_int (2 ^ 52) * 2 ^ s = of_int (2 ^ 52 * 2 ^ s)" by simp
  also have "\<dots> = of_int (2 ^ (b - 1))" by (simp only: eq)
  also have "\<dots> \<le> of_int n" using lo by (simp only: of_int_le_iff)
  finally have "rat_of_int (2 ^ 52) \<le> of_int n / 2 ^ s"
    by (simp add: pos_le_divide_eq)
  then have "2 ^ 52 \<le> round_half_even (of_int n / 2 ^ s)" by (rule round_half_even_lower)
  then have "2 ^ 52 * 2 ^ s \<le> round_half_even (of_int n / 2 ^ s) * 2 ^ s"
    by (simp add: mult_right_mono)
  moreover note eq
  moreover have "(2::int) ^ 1024 \<le> 2 ^ (b - 1)" using b by (intro power_increasing) simp_all
  ultimately have r: "2 ^ 1024 \<le> round_half_even (of_int n / 2 ^ s) * 2 ^ s" by linarith
  have "(2::int) ^ 53 \<le> 2 ^ 1024" by (intro power_increasing) simp_all
  with big have "\<not> n < 2 ^ 53" by linarith
  then show ?thesis using r
    by (simp add: int_to_float_def Let_def n_def[symmetric] b_def[symmetric] s_def[symmetric])
qed

lemma small_ints: "int_to_float 1 = Some (Fin 1)" "int_to_float 2 = Some (Fin 2)"
  "int_to_float 3 = Some (Fin 3)"
  by (simp_all add: int_to_float_def)

lemma huge_int_overflows: "int_to_float huge_int = None"
  by (rule int_to_float_overflow) (simp add: huge_int_def)

subsection \<open>Startup\<close>

lemma startup_total: "\<exists>st. startup fs = Inr st"
  by (cases "MODEL_PATH fs"; cases "SCALER_PATH fs"; cases "METADATA_PATH fs")
     (auto simp add: startup_def load_model_artifacts_def load_try_def Let_def
        split: sum.splits exc.splits prod.splits)

text \<open>A loaded service holds the two deserialised objects and a metadata dict: the
  empty one when there is no file, the object of the file otherwise.\<close>

lemma startup_loaded:
  assumes "startup fs = Inr st" "model_loaded st"
  shows "\<exists>m s kvs. MODEL_PATH fs = Content m \<and> SCALER_PATH fs = Content s \<and>
           model st = Some m \<and> scaler st = Some s \<and> model_metadata st = JObj kvs \<and>
           (METADATA_PATH fs = Absent \<and> kvs = [] \<or> METADATA_PATH fs = Content (JObj kvs))"
proof -
  obtain m where m: "MODEL_PATH fs = Content m"
    using assms by (cases "MODEL_PATH fs") (auto simp add: load_defs split: sum.splits exc.splits prod.splits)
  obtain s where s: "SCALER_PATH fs = Content s"
    using assms m by (cases "SCALER_PATH fs") (auto simp add: load_defs split: sum.splits exc.splits prod.splits)
  show ?thesis
  proof (cases "METADATA_PATH fs")
    case Absent
    with assms m s show ?thesis by (auto simp add: load_defs)
  next
    case Unreadable
    with assms m s show ?thesis by (auto simp add: load_defs)
  next
    case (Content md)
    with assms m s show ?thesis by (cases md) (auto simp add: load_defs)
  qed
qed

lemma load_result:
  "fst (load_model_artifacts fs g) =
     Inr (is_content (MODEL_PATH fs) \<and> is_content (SCALER_PATH fs) \<and>
          (case METADATA_PATH fs of
             Absent \<Rightarrow> is_dict (model_metadata g)
           | Unreadable \<Rightarrow> False
           | Content md \<Rightarrow> is_dict md))"
proof (cases "MODEL_PATH fs")
  case (Content m)
  show ?thesis
  proof (cases "SCALER_PATH fs")
    case (Content s)
    note sc = this
    show ?thesis
    proof (cases "METADATA_PATH fs")
      case Absent
      then show ?thesis using \<open>MODEL_PATH fs = Content m\<close> sc
        by (cases "model_metadata g")
           (simp_all add: load_model_artifacts_def load_try_def is_content_def is_dict_def Let_def)
    next
      case Unreadable
      then show ?thesis using \<open>MODEL_PATH fs = Content m\<close> sc
        by (simp add: load_model_artifacts_def load_try_def is_content_def is_dict_def Let_def)
    next
      case (Content md)
      then show ?thesis using \<open>MODEL_PATH fs = Content m\<close> sc
        by (cases md)
           (simp_all add: load_model_artifacts_def load_try_def is_content_def is_dict_def Let_def)
    qed
  qed (simp_all add: Content load_model_artifacts_def load_try_def is_content_def Let_def)
qed (simp_all add: load_model_artifacts_def load_try_def is_content_def Let_def)

lemma startup_example: "startup example_files = Inr example_state"
  by (simp add: load_defs example_files_def example_state_def example_metadata_def)

lemma startup_default: "startup default_files = Inr default_state"
  by (simp add: load_defs default_files_def default_state_def)

lemma loaded_example: "model_loaded example_state"
  by (simp add: example_state_def)

lemma expected_example: "expected_count example_state = Inr (JInt 2)"
  by (simp add: expected_count_def example_state_def example_metadata_def)

subsection \<open>The schema\<close>

lemma init_truthy: "PredictionInput_init lib j = Inr inp \<Longrightarrow> truthy j"
  by (cases j) (auto split: option.splits)

lemma filter_upt_Suc:
  "filter P [0..<Suc n] =
     (if P 0 then [0] else []) @ map Suc (filter (\<lambda>i. P (Suc i)) [0..<n])"
proof -
  have "[0..<Suc n] = 0 # map Suc [0..<n]"
    by (simp add: upt_conv_Cons map_Suc_upt del: upt_Suc)
  then show ?thesis by (simp add: filter_map comp_def del: upt_Suc)
qed

text \<open>The errors of the items are the rejected positions in order, each with its
  index and the kind of its item.\<close>

lemma validate_items_errors:
  "fst (validate_items lib k js) =
     map (\<lambda>i. ([LocKey ''features'', LocIndex (k + i)], item_error (js ! i)))
       (filter (\<lambda>i. float_field lib (js ! i) = None) [0..<length js])"
proof (induction js arbitrary: k)
  case Nil
  show ?case by simp
next
  case (Cons j js)
  obtain es xs where rest: "validate_items lib (Suc k) js = (es, xs)"
    by (cases "validate_items lib (Suc k) js")
  from Cons.IH[of "Suc k"] rest
  have es: "es = map (\<lambda>i. ([LocKey ''features'', LocIndex (Suc k + i)], item_error (js ! i)))
       (filter (\<lambda>i. float_field lib (js ! i) = None) [0..<length js])" by simp
  show ?case
    by (cases "float_field lib j")
       (simp_all add: filter_upt_Suc rest es comp_def del: upt_Suc)
qed

lemma init_schema_error:
  assumes "\<not> schema_ok lib kvs"
  shows "PredictionInput_init lib (JObj kvs) = Inl (ValidationError (schema_details lib kvs)) \<and>
         schema_details lib kvs \<noteq> []"
proof (cases "map_of kvs ''features''")
  case None
  then show ?thesis by (simp add: schema_details_def)
next
  case (Some v)
  show ?thesis
  proof (cases v)
    case (JArr js)
    obtain es xs where vi: "validate_items lib 0 js = (es, xs)"
      by (cases "validate_items lib 0 js")
    from validate_items_errors[of lib 0 js] vi have es: "es = rejected_items lib js"
      by (simp add: rejected_items_def)
    from assms Some JArr have "\<not> list_all (\<lambda>j. float_field lib j \<noteq> None) js"
      by (simp add: schema_ok_def)
    then obtain i where i: "i < length js" "float_field lib (js ! i) = None"
      by (auto simp add: list_all_length)
    then have "rejected_items lib js \<noteq> []"
      by (auto simp add: rejected_items_def filter_empty_conv)
    with es have ne: "es \<noteq> []" by simp
    then obtain e0 es0 where c: "es = e0 # es0" by (cases es) auto
    have "PredictionInput_init lib (JObj kvs) = Inl (ValidationError es)"
      using Some JArr vi c by simp
    moreover have "schema_details lib kvs = es"
      using Some JArr es by (simp add: schema_details_def)
    ultimately show ?thesis using ne by simp
  qed (simp_all add: Some schema_details_def)
qed

lemma rejected_items_eq: "rejected_items lib js = fst (validate_items lib 0 js)"
  by (simp add: validate_items_errors rejected_items_def)

lemma rejected_details:
  "schema_details example_library rejected_payload =
     [([LocKey ''features'', LocIndex 1], float_parsing),
      ([LocKey ''features'', LocIndex 2], float_type),
      ([LocKey ''features'', LocIndex 3], float_type)]"
  by (simp add: schema_details_def rejected_payload_def rejected_items_eq huge_int_overflows
      small_ints example_library_def)


subsection \<open>The views, branch by branch\<close>

lemma predict_loaded_truthy:
  "model_loaded st \<Longrightarrow> truthy j \<Longrightarrow>
   predict lib st (Inr j) =
     (case predict_try lib st j of
        Inr result \<Rightarrow> Inr \<lparr>body = ResultBody result, status_code = 200\<rparr>
      | Inl (ValidationError errors) \<Rightarrow>
          Inr \<lparr>body = InvalidBody datos_invalidos errors, status_code = 422\<rparr>
      | Inl (ValueError msg) \<Rightarrow> Inr \<lparr>body = ErrorBody msg, status_code = 400\<rparr>
      | Inl _ \<Rightarrow> Inr \<lparr>body = ErrorBody ''Error interno del servidor'', status_code = 500\<rparr>)"
  by (simp add: predict_def)

lemma predict_try_schema:
  "PredictionInput_init lib j = Inl e \<Longrightarrow> predict_try lib st j = Inl e"
  by (simp add: predict_try_def bind_def)

lemma predict_try_invalid:
  "PredictionInput_init lib j = Inr inp \<Longrightarrow> validate_features lib st inp = Inl e \<Longrightarrow>
   predict_try lib st j = Inl e"
  by (simp add: predict_try_def bind_def)


lemma predict_try_label:
  assumes "predict_try lib st j = Inr r"
  shows "prediction r = (if prediction_numeric r = 1 then ''Maligno'' else ''Benigno'') \<and>
         (\<exists>m z ls. model st = Some m \<and> model_predict m z = Inr ls \<and>
                    ls \<noteq> [] \<and> prediction_numeric r = ls ! 0)"
  using assms
  by (auto simp add: predict_try_def bind_def Let_def getitem_def
      split: sum.splits option.splits if_splits; blast)

lemma predict_200:
  assumes "predict lib st req = Inr resp" "status_code resp = 200"
  shows "\<exists>j r. req = Inr j \<and> predict_try lib st j = Inr r \<and> body resp = ResultBody r"
  using assms
  by (auto simp add: predict_def split: if_splits sum.splits exc.splits)

lemma predict_semantic_error:
  assumes "model_loaded st" and "PredictionInput_init lib json_data = Inr inp"
    and "validate_features lib st inp = Inl (ValueError msg)"
  shows "predict lib st (Inr json_data) = Inr \<lparr>body = ErrorBody msg, status_code = 400\<rparr>"
  using assms init_truthy[OF assms(2)]
  by (simp add: predict_loaded_truthy predict_try_invalid)

lemma predict_example:
  "predict example_library example_state (Inr example_payload) =
     Inr \<lparr>body = ResultBody example_result, status_code = 200\<rparr>"
  by (simp add: predict_defs example_state_def example_classifier_def example_scaler_def
      example_metadata_def example_payload_def example_result_def round_half_even_examples
      small_ints)

lemma binary_example: "binary_labels example_state"
  by (auto simp add: binary_labels_def example_state_def example_classifier_def)

text \<open>With the model not loaded POST /predict answers 503 whatever the request, and
  GET / answers 503 as long as the metadata global is a dict.\<close>

lemma unavailable_predict_503:
  "\<not> model_loaded st \<Longrightarrow>
   predict lib st req = Inr \<lparr>body = ErrorBody ''Modelo no disponible'', status_code = 503\<rparr>"
  by (simp add: predict_def)

lemma unavailable_health_503:
  "\<not> model_loaded st \<Longrightarrow> model_metadata st = JObj kvs \<Longrightarrow>
   health_check st =
     Inr \<lparr>body = HealthBody
            \<lparr>status = ''degraded'', message = api_message, status_model_loaded = False,
             model_accuracy = (case map_of kvs ''accuracy'' of None \<Rightarrow> JStr ''N/A'' | Some a \<Rightarrow> a)\<rparr>,
          status_code = 503\<rparr>"
  by (simp add: health_check_def bind_def)

section \<open>The claims\<close>

subsection \<open>Service not ready\<close>

text \<open>
  C1. When the load failed at startup, so that \<open>model_loaded\<close> is false, POST /predict
  is to answer 503 with \<open>{"error": "Modelo no disponible"}\<close> whatever the payload, and
  GET / is to answer 503 with \<open>model_loaded\<close> false in its body. The code keeps the
  first half and breaks the second on one reachable state. A metadata file that holds
  the JSON list \<open>[1, 2]\<close> is assigned to the global, the \<open>.get\<close> of the log line
  raises inside the \<open>try\<close> and the load returns false; POST /predict answers 503,
  but \<open>health_check\<close> calls \<open>.get\<close> on the list outside any \<open>try\<close> and raises
  \<open>AttributeError\<close>, which the framework answers with 500.
\<close>

theorem health_check_raises_after_failed_load:
  "startup list_metadata_files = Inr list_metadata_state \<and>
   \<not> model_loaded list_metadata_state \<and>
   predict example_library list_metadata_state (Inr example_payload) =
     Inr \<lparr>body = ErrorBody ''Modelo no disponible'', status_code = 503\<rparr> \<and>
   health_check list_metadata_state = Inl AttributeError"
  by (simp add: load_defs list_metadata_files_def list_metadata_state_def predict_def
      health_check_def bind_def)

subsection \<open>A valid feature vector\<close>



subsection \<open>Label and numeric class\<close>

text \<open>
  C3. In every 200 answer of POST /predict, on a service whose classifier answers only
  the labels 0 and 1, \<open>prediction_numeric\<close> is 0 or 1, \<open>prediction\<close> is "Maligno"
  exactly when \<open>prediction_numeric\<close> is 1, and "Benigno" exactly when it is 0.
\<close>

theorem label_follows_numeric:
  assumes "predict lib st req = Inr resp" and "status_code resp = 200"
    and "binary_labels st"
  shows "\<exists>r. body resp = ResultBody r \<and>
           (prediction_numeric r = 0 \<or> prediction_numeric r = 1) \<and>
           (prediction r = ''Maligno'' \<longleftrightarrow> prediction_numeric r = 1) \<and>
           (prediction r = ''Benigno'' \<longleftrightarrow> prediction_numeric r = 0)"
proof -
  from predict_200[OF assms(1,2)] obtain j r where
    r: "predict_try lib st j = Inr r" "body resp = ResultBody r" by blast
  from predict_try_label[OF r(1)] obtain m z ls where
    lab: "prediction r = (if prediction_numeric r = 1 then ''Maligno'' else ''Benigno'')"
    and m: "model st = Some m" "model_predict m z = Inr ls" "ls \<noteq> []"
      "prediction_numeric r = ls ! 0" by blast
  from assms(3) m(1,2) have "list_all (\<lambda>c. c = 0 \<or> c = 1) ls"
    by (simp add: binary_labels_def)
  with m(3,4) have "prediction_numeric r = 0 \<or> prediction_numeric r = 1"
    by (cases ls) simp_all
  with lab r(2) show ?thesis by auto
qed

theorem label_follows_numeric_witness:
  "\<exists>r. body \<lparr>body = ResultBody example_result, status_code = 200\<rparr> = ResultBody r \<and>
       (prediction_numeric r = 0 \<or> prediction_numeric r = 1) \<and>
       (prediction r = ''Maligno'' \<longleftrightarrow> prediction_numeric r = 1) \<and>
       (prediction r = ''Benigno'' \<longleftrightarrow> prediction_numeric r = 0)"
proof -
  have ok: "status_code \<lparr>body = ResultBody example_result, status_code = 200\<rparr> = 200"
    by simp
  show ?thesis by (rule label_follows_numeric[OF predict_example ok binary_example])
qed

subsection \<open>Semantic validation\<close>

text \<open>
  C4. On a loaded service, for every feature list that passes the schema and whose
  length differs from the expected count, POST /predict answers 400 (a 4xx status) and
  the error message names both counts: it is "Se esperaban E features, recibidas N" with
  E the expected count as \<open>str\<close> prints it (in decimal when it is an int) and N the
  received count in decimal. The expected count is the value under \<open>feature_count\<close> in
  the metadata file, and 30 when the file or the key is absent.
\<close>

theorem length_mismatch_400:
  assumes "startup fs = Inr st" and "model_loaded st"
    and "PredictionInput_init lib json_data = Inr \<lparr>features = xs\<rparr>"
    and "expected_count st = Inr expected"
    and "\<not> int_equals (int (length xs)) expected"
  shows "predict lib st (Inr json_data) =
           Inr \<lparr>body = ErrorBody
                  (''Se esperaban '' @ py_str lib expected @ '' features, recibidas ''
                     @ str_int (int (length xs))),
                status_code = 400\<rparr> \<and>
         py_str lib (JInt n) = str_int n \<and>
         expected =
           (case METADATA_PATH fs of
              Content (JObj kvs) \<Rightarrow>
                (case map_of kvs ''feature_count'' of Some v \<Rightarrow> v | None \<Rightarrow> JInt 30)
            | _ \<Rightarrow> JInt 30)"
proof -
  have "validate_features lib st \<lparr>features = xs\<rparr> =
          Inl (ValueError (''Se esperaban '' @ py_str lib expected
             @ '' features, recibidas '' @ str_int (int (length xs))))"
    using assms(4,5) by (simp add: validate_features_def bind_def)
  from predict_semantic_error[OF assms(2,3) this]
  have resp: "predict lib st (Inr json_data) =
           Inr \<lparr>body = ErrorBody
                  (''Se esperaban '' @ py_str lib expected @ '' features, recibidas ''
                     @ str_int (int (length xs))),
                status_code = 400\<rparr>" .
  from startup_loaded[OF assms(1,2)] obtain kvs where
    md: "model_metadata st = JObj kvs"
      "METADATA_PATH fs = Absent \<and> kvs = [] \<or> METADATA_PATH fs = Content (JObj kvs)"
    by blast
  from assms(4) md(1) have "expected = (case map_of kvs ''feature_count'' of Some v \<Rightarrow> v | None \<Rightarrow> JInt 30)"
    by (simp add: expected_count_def split: option.splits)
  with md(2) have "expected =
           (case METADATA_PATH fs of
              Content (JObj kvs) \<Rightarrow>
                (case map_of kvs ''feature_count'' of Some v \<Rightarrow> v | None \<Rightarrow> JInt 30)
            | _ \<Rightarrow> JInt 30)"
    by auto
  with resp show ?thesis by simp
qed

text \<open>The scenario of the test suite, \<open>{"features": [1, 2, 3]}\<close>, on a service started
  without a metadata file.\<close>

theorem length_mismatch_400_witness:
  "predict example_library default_state
     (Inr (JObj [(''features'', JArr [JInt 1, JInt 2, JInt 3])])) =
     Inr \<lparr>body = ErrorBody ''Se esperaban 30 features, recibidas 3'', status_code = 400\<rparr>"
proof -
  have l: "model_loaded default_state" by (simp add: default_state_def)
  have i: "PredictionInput_init example_library
             (JObj [(''features'', JArr [JInt 1, JInt 2, JInt 3])]) =
             Inr \<lparr>features = [Fin 1, Fin 2, Fin 3]\<rparr>" by (simp add: small_ints)
  have e: "expected_count default_state = Inr (JInt 30)"
    by (simp add: expected_count_def default_state_def)
  have n: "\<not> int_equals (int (length [Fin 1, Fin 2, Fin 3])) (JInt 30)" by simp
  from length_mismatch_400[OF startup_default l i e n] show ?thesis
    by (simp add: str_int_examples)
qed

text \<open>
  C5. On a loaded service, for every feature vector of the expected length with at least
  one NaN or infinite element, POST /predict answers 400 with an error body.
\<close>

theorem invalid_values_400:
  assumes "model_loaded st"
    and "PredictionInput_init lib json_data = Inr \<lparr>features = xs\<rparr>"
    and "expected_count st = Inr expected"
    and "int_equals (int (length xs)) expected"
    and "list_ex isnan xs \<or> list_ex isinf xs"
  shows "predict lib st (Inr json_data) =
           Inr \<lparr>body = ErrorBody valores_invalidos, status_code = 400\<rparr>"
proof -
  have "validate_features lib st \<lparr>features = xs\<rparr> = Inl (ValueError valores_invalidos)"
    using assms(3,4,5) by (simp add: validate_features_def bind_def)
  from predict_semantic_error[OF assms(1,2) this] show ?thesis .
qed

theorem invalid_values_400_witness:
  "predict example_library example_state
     (Inr (JObj [(''features'', JArr [JFloat NaN, JFloat NegInf])])) =
     Inr \<lparr>body = ErrorBody valores_invalidos, status_code = 400\<rparr>"
proof -
  have i: "PredictionInput_init example_library
             (JObj [(''features'', JArr [JFloat NaN, JFloat NegInf])]) =
             Inr \<lparr>features = [NaN, NegInf]\<rparr>" by simp
  have n: "int_equals (int (length [NaN, NegInf])) (JInt 2)" by simp
  have v: "list_ex isnan [NaN, NegInf] \<or> list_ex isinf [NaN, NegInf]" by simp
  from invalid_values_400[OF loaded_example i expected_example n v] show ?thesis .
qed

text \<open>
  C9. The length is checked before the values: for every feature list whose length
  differs from the expected count and which holds a NaN or an infinity, POST /predict
  answers with the length message (expected against received count), never with the
  invalid-values message.
\<close>

theorem length_checked_first:
  assumes "model_loaded st"
    and "PredictionInput_init lib json_data = Inr \<lparr>features = xs\<rparr>"
    and "expected_count st = Inr expected"
    and "\<not> int_equals (int (length xs)) expected"
    and "list_ex isnan xs \<or> list_ex isinf xs"
  shows "\<exists>msg. predict lib st (Inr json_data) =
                 Inr \<lparr>body = ErrorBody msg, status_code = 400\<rparr> \<and>
               msg = ''Se esperaban '' @ py_str lib expected @ '' features, recibidas ''
                       @ str_int (int (length xs)) \<and>
               msg \<noteq> valores_invalidos"
proof -
  have "validate_features lib st \<lparr>features = xs\<rparr> =
          Inl (ValueError (''Se esperaban '' @ py_str lib expected
             @ '' features, recibidas '' @ str_int (int (length xs))))"
    using assms(3,4) by (simp add: validate_features_def bind_def)
  from predict_semantic_error[OF assms(1,2) this] show ?thesis
    by (simp add: valores_invalidos_def)
qed

theorem length_checked_first_witness:
  "\<exists>msg. predict example_library example_state
           (Inr (JObj [(''features'', JArr [JFloat NaN])])) =
           Inr \<lparr>body = ErrorBody msg, status_code = 400\<rparr> \<and>
         msg = ''Se esperaban 2 features, recibidas 1'' \<and> msg \<noteq> valores_invalidos"
proof -
  have i: "PredictionInput_init example_library (JObj [(''features'', JArr [JFloat NaN])]) =
             Inr \<lparr>features = [NaN]\<rparr>" by simp
  have n: "\<not> int_equals (int (length [NaN])) (JInt 2)" by simp
  have v: "list_ex isnan [NaN] \<or> list_ex isinf [NaN]" by simp
  from length_checked_first[OF loaded_example i expected_example n v] show ?thesis
    by (simp add: str_int_examples)
qed

subsection \<open>Schema errors\<close>

text \<open>
  C6 (amended). On a loaded service, for every payload that is a non-empty JSON object
  whose \<open>features\<close> field is missing, is not a list, or is a list holding an item the
  schema's float type rejects (a null, a nested list or object, an integer beyond the
  range of a double, a string that is not a number), POST /predict answers 422 with the
  body \<open>{"error": "Datos inv\<acute>alidos", "details": [...]}\<close>; the details name the
  field, or every rejected item by its index, and are never empty.
\<close>

theorem schema_error_422:
  assumes "model_loaded st" and "kvs \<noteq> []" and "\<not> schema_ok lib kvs"
  shows "predict lib st (Inr (JObj kvs)) =
           Inr \<lparr>body = InvalidBody datos_invalidos (schema_details lib kvs),
                status_code = 422\<rparr> \<and>
         schema_details lib kvs \<noteq> []"
proof -
  from init_schema_error[OF assms(3)] have
    d: "PredictionInput_init lib (JObj kvs) = Inl (ValidationError (schema_details lib kvs))"
       "schema_details lib kvs \<noteq> []" by simp_all
  have "truthy (JObj kvs)" using assms(2) by simp
  then have "predict lib st (Inr (JObj kvs)) =
               Inr \<lparr>body = InvalidBody datos_invalidos (schema_details lib kvs),
                    status_code = 422\<rparr>"
    using assms(1) by (simp add: predict_loaded_truthy predict_try_schema[OF d(1)])
  with d(2) show ?thesis by simp
qed

text \<open>The payload \<open>{"features": [1, "x", null, 2\<^sup>1\<^sup>0\<^sup>2\<^sup>4]}\<close>: three items are
  rejected, each reported at its index.\<close>

theorem schema_error_422_witness:
  "predict example_library example_state (Inr (JObj rejected_payload)) =
     Inr \<lparr>body = InvalidBody datos_invalidos
            [([LocKey ''features'', LocIndex 1], float_parsing),
             ([LocKey ''features'', LocIndex 2], float_type),
             ([LocKey ''features'', LocIndex 3], float_type)],
          status_code = 422\<rparr>"
proof -
  have k: "rejected_payload \<noteq> []" by (simp add: rejected_payload_def)
  have "float_field example_library (JStr ''x'') = None" by (simp add: example_library_def)
  then have n: "\<not> schema_ok example_library rejected_payload"
    by (simp add: schema_ok_def rejected_payload_def)
  from schema_error_422[OF loaded_example k n] show ?thesis
    by (simp add: rejected_details)
qed

text \<open>
  A list need not hold numbers to pass: the float type takes a bool as 1 or 0. The
  payload \<open>{"features": [true, false]}\<close> holds no JSON number and is answered 200 on a
  service that expects two features.
\<close>

theorem bools_pass_the_schema:
  "model_loaded example_state \<and>
   bool_payload = JObj [(''features'', JArr [JBool True, JBool False])] \<and>
   \<not> list_all json_number [JBool True, JBool False] \<and>
   predict example_library example_state (Inr bool_payload) =
     Inr \<lparr>body = ResultBody example_result, status_code = 200\<rparr>"
  by (simp add: predict_defs example_state_def example_classifier_def example_scaler_def
      example_metadata_def bool_payload_def example_result_def round_half_even_examples
      json_number_def)

subsection \<open>No JSON data\<close>

text \<open>
  C10. On a loaded service, a request whose body parses to a falsy JSON value (null,
  false, 0, "", [] or {}) is answered 400 with
  \<open>{"error": "No se proporcionaron datos JSON"}\<close>: the empty object takes this branch
  and never reaches the schema check that would report the missing field.
\<close>

theorem falsy_json_400:
  assumes "model_loaded st" and "\<not> truthy json_data"
  shows "predict lib st (Inr json_data) =
           Inr \<lparr>body = ErrorBody ''No se proporcionaron datos JSON'', status_code = 400\<rparr>"
proof -
  from assms(2) have "(if \<not> truthy json_data then a else b) = a" for a b :: "exc + response"
    by simp
  with assms(1) show ?thesis by (simp add: predict_def)
qed

theorem falsy_json_400_witness:
  "\<not> truthy (JObj []) \<and>
   PredictionInput_init example_library (JObj []) =
     Inl (ValidationError [([LocKey ''features''], missing)]) \<and>
   predict example_library example_state (Inr (JObj [])) =
     Inr \<lparr>body = ErrorBody ''No se proporcionaron datos JSON'', status_code = 400\<rparr>"
proof -
  have f: "\<not> truthy (JObj [])" by simp
  from falsy_json_400[OF loaded_example f] show ?thesis by simp
qed

text \<open>
  C7 (amended). On a loaded service, when \<open>get_json\<close> returns no data (\<open>None\<close>), POST
  /predict answers 400 with \<open>{"error": "No se proporcionaron datos JSON"}\<close>. When
  \<open>get_json\<close> raises, as the framework does on a body that does not parse, the
  exception leaves the view as it is: the view builds no response for it, and the
  answer is the framework's.
\<close>

theorem no_json_400_or_raise:
  assumes "model_loaded st"
  shows "predict lib st (Inr JNull) =
           Inr \<lparr>body = ErrorBody ''No se proporcionaron datos JSON'', status_code = 400\<rparr> \<and>
         predict lib st (Inl e) = Inl e"
  using assms by (simp add: predict_def)

theorem no_json_400_or_raise_witness:
  "predict example_library example_state (Inr JNull) =
     Inr \<lparr>body = ErrorBody ''No se proporcionaron datos JSON'', status_code = 400\<rparr> \<and>
   predict example_library example_state (Inl (HTTPException 415)) = Inl (HTTPException 415)"
  by (rule no_json_400_or_raise[OF loaded_example])

text \<open>
  A body that is not JSON makes \<open>get_json\<close> raise the framework's 400 exception. The
  call stands outside the \<open>try\<close>, so on a loaded service the view returns no
  \<open>{"error": ...}\<close> body: the exception is its whole outcome.
\<close>

theorem get_json_raise_leaves_view:
  "startup example_files = Inr example_state \<and> model_loaded example_state \<and>
   predict example_library example_state (Inl (HTTPException 400)) = Inl (HTTPException 400)"
  by (simp add: startup_example loaded_example predict_def)

subsection \<open>Loading the artifacts\<close>

text \<open>
  C8 (amended). The load returns true exactly when the classifier file and the scaler
  file both deserialise and the metadata is a dict: the file is missing (the global
  keeps its empty dict) or parses to a JSON object. A metadata file that is there but
  does not parse, or parses to something else, makes the load return false. No
  exception leaves the load in any case. With both artifacts and no metadata file the
  service starts loaded with the empty metadata map, so the expected count is the
  default 30.
\<close>

theorem load_returns_true_iff:
  "fst (load_model_artifacts fs g) =
     Inr (is_content (MODEL_PATH fs) \<and> is_content (SCALER_PATH fs) \<and>
          (case METADATA_PATH fs of
             Absent \<Rightarrow> is_dict (model_metadata g)
           | Unreadable \<Rightarrow> False
           | Content md \<Rightarrow> is_dict md)) \<and>
   (is_content (MODEL_PATH fs) \<and> is_content (SCALER_PATH fs) \<and> METADATA_PATH fs = Absent \<longrightarrow>
      (\<exists>st. startup fs = Inr st \<and> model_loaded st \<and> model_metadata st = JObj [] \<and>
            expected_count st = Inr (JInt 30)))"
proof -
  have "\<exists>st. startup fs = Inr st \<and> model_loaded st \<and>
      model_metadata st = JObj [] \<and> expected_count st = Inr (JInt 30)"
    if "is_content (MODEL_PATH fs)" "is_content (SCALER_PATH fs)" "METADATA_PATH fs = Absent"
    using that
    by (cases "MODEL_PATH fs"; cases "SCALER_PATH fs")
       (simp_all add: load_defs is_content_def expected_count_def)
  with load_result[of fs g] show ?thesis by blast
qed

theorem load_returns_true_iff_witness:
  "fst (load_model_artifacts default_files initial_state) = Inr True \<and>
   (\<exists>st. startup default_files = Inr st \<and> model_loaded st \<and>
         model_metadata st = JObj [] \<and> expected_count st = Inr (JInt 30))"
proof -
  have c: "is_content (MODEL_PATH default_files)" "is_content (SCALER_PATH default_files)"
    "METADATA_PATH default_files = Absent" "is_dict (model_metadata initial_state)"
    by (simp_all add: default_files_def is_content_def is_dict_def initial_state_def)
  from load_returns_true_iff[of default_files initial_state] c show ?thesis by simp
qed

text \<open>Both artifacts deserialise, the metadata file is there and is not JSON:
  \<open>json.load\<close> raises inside the \<open>try\<close> and the load returns false.\<close>

theorem corrupt_metadata_fails_load:
  "is_content (MODEL_PATH corrupt_metadata_files) \<and>
   is_content (SCALER_PATH corrupt_metadata_files) \<and>
   fst (load_model_artifacts corrupt_metadata_files initial_state) = Inr False"
  by (simp add: load_defs corrupt_metadata_files_def is_content_def)

end
